theory Spec2Isabelle
  imports Main "HOL-Library.Word"
begin

section \<open>Types used by the configuration of the optimizer driver\<close>

text \<open>
  The header \<^verbatim>\<open>mlir/Tools/mlir-opt/MlirOptMain.h\<close> declares the class
  \<^verbatim>\<open>MlirOptMainConfig\<close>, a bag of options with fluent setters and const getters, and the
  inline helper \<^verbatim>\<open>asMainReturnCode\<close>. The class is a record here, a setter is a function
  from the configuration to the updated configuration (the C++ setter mutates the object and
  returns a reference to it), a getter is a function of the configuration.
\<close>

text \<open>The enum class \<^verbatim>\<open>VerbosityLevel\<close>, with its underlying values 0, 1 and 2.\<close>

datatype VerbosityLevel = ErrorsOnly | ErrorsAndWarnings | ErrorsWarningsAndRemarks

fun VerbosityLevel_value :: "VerbosityLevel \<Rightarrow> nat" where
  "VerbosityLevel_value ErrorsOnly = 0"
| "VerbosityLevel_value ErrorsAndWarnings = 1"
| "VerbosityLevel_value ErrorsWarningsAndRemarks = 2"

text \<open>
  Modelled from the spec: the enum \<^verbatim>\<open>SourceMgrDiagnosticVerifierHandler::Level\<close> is declared
  in another header. The spec lists the levels of verify-diagnostics as none, loose and
  strict; the header uses the level \<^verbatim>\<open>Level::None\<close> only.
\<close>

datatype Level = Level_None | Level_Loose | Level_Strict

text \<open>
  Modelled from the spec: \<^verbatim>\<open>LogicalResult\<close> is declared in another header. It is the
  success/failure flag of the spec, built by \<^verbatim>\<open>success()\<close> and \<^verbatim>\<open>failure()\<close> and read by
  \<^verbatim>\<open>succeeded()\<close> and \<^verbatim>\<open>failed()\<close>.
\<close>

datatype LogicalResult = LogicalResult (isSuccess: bool)

definition success :: LogicalResult where
  "success = LogicalResult True"

definition failure :: LogicalResult where
  "failure = LogicalResult False"

definition succeeded :: "LogicalResult \<Rightarrow> bool" where
  "succeeded r = isSuccess r"

definition failed :: "LogicalResult \<Rightarrow> bool" where
  "failed r = (\<not> isSuccess r)"

text \<open>
  A pipeline callback is a \<^verbatim>\<open>std::function<LogicalResult(PassManager &)>\<close>: it receives the
  pass manager by reference, so it returns its result together with the pass manager it
  leaves behind. \<^verbatim>\<open>PassManager\<close> is an opaque class for the header: a type variable.
\<close>

type_synonym 'pm PassPipelineFn = "'pm \<Rightarrow> LogicalResult \<times> 'pm"

section \<open>The class MlirOptMainConfig\<close>

text \<open>
  The protected data members, in the order of the header. \<^verbatim>\<open>tracing::DebugConfig\<close> and
  \<^verbatim>\<open>tracing::BreakpointManager\<close> are opaque for the header: type variables. A
  \<^verbatim>\<open>std::function\<close> may be empty, a \<^verbatim>\<open>std::optional\<close> may be absent: options.
\<close>

record ('dbg, 'bp, 'pm) MlirOptMainConfig =
  allowUnregisteredDialectsFlag :: bool
  debugConfig :: 'dbg
  diagnosticVerbosityLevelFlag :: VerbosityLevel
  dumpPassPipelineFlag :: bool
  emitBytecodeFlag :: bool
  elideResourceDataFromBytecodeFlag :: bool
  irdlFileFlag :: string
  logActionLocationFilter :: "'bp list"
  emitBytecodeVersion :: "64 word option"
  passPipelineCallback :: "'pm PassPipelineFn option"
  listPassesFlag :: bool
  runReproducerFlag :: bool
  showDialectsFlag :: bool
  disableDiagnosticNotesFlag :: bool
  splitInputFileFlag :: string
  outputSplitMarkerFlag :: string
  useExplicitModuleFlag :: bool
  verifyDiagnosticsFlag :: Level
  verifyPassesFlag :: bool
  disableVerifierOnParsingFlag :: bool
  verifyRoundtripFlag :: bool
  generateReproducerFileFlag :: string

text \<open>
  The default member initializers: what a default-constructed configuration holds. The
  argument is the default-constructed \<^verbatim>\<open>tracing::DebugConfig\<close>.
\<close>

definition MlirOptMainConfig_default :: "'dbg \<Rightarrow> ('dbg, 'bp, 'pm) MlirOptMainConfig" where
  "MlirOptMainConfig_default dbg =
    \<lparr> allowUnregisteredDialectsFlag = False,
      debugConfig = dbg,
      diagnosticVerbosityLevelFlag = ErrorsWarningsAndRemarks,
      dumpPassPipelineFlag = False,
      emitBytecodeFlag = False,
      elideResourceDataFromBytecodeFlag = False,
      irdlFileFlag = '''',
      logActionLocationFilter = [],
      emitBytecodeVersion = None,
      passPipelineCallback = None,
      listPassesFlag = False,
      runReproducerFlag = False,
      showDialectsFlag = False,
      disableDiagnosticNotesFlag = True,
      splitInputFileFlag = '''',
      outputSplitMarkerFlag = '''',
      useExplicitModuleFlag = False,
      verifyDiagnosticsFlag = Level_None,
      verifyPassesFlag = True,
      disableVerifierOnParsingFlag = False,
      verifyRoundtripFlag = False,
      generateReproducerFileFlag = '''' \<rparr>"

subsection \<open>Setters and getters, in the order of the header\<close>

definition allowUnregisteredDialects ::
  "bool \<Rightarrow> ('dbg, 'bp, 'pm) MlirOptMainConfig \<Rightarrow> ('dbg, 'bp, 'pm) MlirOptMainConfig" where
  "allowUnregisteredDialects allow c = c\<lparr>allowUnregisteredDialectsFlag := allow\<rparr>"

definition shouldAllowUnregisteredDialects :: "('dbg, 'bp, 'pm) MlirOptMainConfig \<Rightarrow> bool" where
  "shouldAllowUnregisteredDialects c = allowUnregisteredDialectsFlag c"

definition setDebugConfig ::
  "'dbg \<Rightarrow> ('dbg, 'bp, 'pm) MlirOptMainConfig \<Rightarrow> ('dbg, 'bp, 'pm) MlirOptMainConfig" where
  "setDebugConfig config c = c\<lparr>debugConfig := config\<rparr>"

definition getDebugConfig :: "('dbg, 'bp, 'pm) MlirOptMainConfig \<Rightarrow> 'dbg" where
  "getDebugConfig c = debugConfig c"

definition dumpPassPipeline ::
  "bool \<Rightarrow> ('dbg, 'bp, 'pm) MlirOptMainConfig \<Rightarrow> ('dbg, 'bp, 'pm) MlirOptMainConfig" where
  "dumpPassPipeline dump c = c\<lparr>dumpPassPipelineFlag := dump\<rparr>"

definition getDiagnosticVerbosityLevel ::
  "('dbg, 'bp, 'pm) MlirOptMainConfig \<Rightarrow> VerbosityLevel" where
  "getDiagnosticVerbosityLevel c = diagnosticVerbosityLevelFlag c"

definition shouldDumpPassPipeline :: "('dbg, 'bp, 'pm) MlirOptMainConfig \<Rightarrow> bool" where
  "shouldDumpPassPipeline c = dumpPassPipelineFlag c"

definition emitBytecode ::
  "bool \<Rightarrow> ('dbg, 'bp, 'pm) MlirOptMainConfig \<Rightarrow> ('dbg, 'bp, 'pm) MlirOptMainConfig" where
  "emitBytecode emit c = c\<lparr>emitBytecodeFlag := emit\<rparr>"

definition shouldEmitBytecode :: "('dbg, 'bp, 'pm) MlirOptMainConfig \<Rightarrow> bool" where
  "shouldEmitBytecode c = emitBytecodeFlag c"

definition shouldElideResourceDataFromBytecode ::
  "('dbg, 'bp, 'pm) MlirOptMainConfig \<Rightarrow> bool" where
  "shouldElideResourceDataFromBytecode c = elideResourceDataFromBytecodeFlag c"

definition shouldShowNotes :: "('dbg, 'bp, 'pm) MlirOptMainConfig \<Rightarrow> bool" where
  "shouldShowNotes c = (\<not> disableDiagnosticNotesFlag c)"

definition setIrdlFile ::
  "string \<Rightarrow> ('dbg, 'bp, 'pm) MlirOptMainConfig \<Rightarrow> ('dbg, 'bp, 'pm) MlirOptMainConfig" where
  "setIrdlFile file c = c\<lparr>irdlFileFlag := file\<rparr>"

definition getIrdlFile :: "('dbg, 'bp, 'pm) MlirOptMainConfig \<Rightarrow> string" where
  "getIrdlFile c = irdlFileFlag c"

definition setEmitBytecodeVersion ::
  "64 word \<Rightarrow> ('dbg, 'bp, 'pm) MlirOptMainConfig \<Rightarrow> ('dbg, 'bp, 'pm) MlirOptMainConfig" where
  "setEmitBytecodeVersion version c = c\<lparr>emitBytecodeVersion := Some version\<rparr>"

definition bytecodeVersionToEmit ::
  "('dbg, 'bp, 'pm) MlirOptMainConfig \<Rightarrow> 64 word option" where
  "bytecodeVersionToEmit c = emitBytecodeVersion c"

definition setPassPipelineSetupFn ::
  "'pm PassPipelineFn option \<Rightarrow> ('dbg, 'bp, 'pm) MlirOptMainConfig
    \<Rightarrow> ('dbg, 'bp, 'pm) MlirOptMainConfig" where
  "setPassPipelineSetupFn callback c = c\<lparr>passPipelineCallback := callback\<rparr>"

definition setupPassPipeline ::
  "('dbg, 'bp, 'pm) MlirOptMainConfig \<Rightarrow> 'pm \<Rightarrow> LogicalResult \<times> 'pm" where
  "setupPassPipeline c pm =
    (case passPipelineCallback c of
       Some callback \<Rightarrow> callback pm
     | None \<Rightarrow> (success, pm))"

definition listPasses ::
  "bool \<Rightarrow> ('dbg, 'bp, 'pm) MlirOptMainConfig \<Rightarrow> ('dbg, 'bp, 'pm) MlirOptMainConfig" where
  "listPasses list c = c\<lparr>listPassesFlag := list\<rparr>"

definition shouldListPasses :: "('dbg, 'bp, 'pm) MlirOptMainConfig \<Rightarrow> bool" where
  "shouldListPasses c = listPassesFlag c"

definition runReproducer ::
  "bool \<Rightarrow> ('dbg, 'bp, 'pm) MlirOptMainConfig \<Rightarrow> ('dbg, 'bp, 'pm) MlirOptMainConfig" where
  "runReproducer enableReproducer c = c\<lparr>runReproducerFlag := enableReproducer\<rparr>"

definition shouldRunReproducer :: "('dbg, 'bp, 'pm) MlirOptMainConfig \<Rightarrow> bool" where
  "shouldRunReproducer c = runReproducerFlag c"

definition showDialects ::
  "bool \<Rightarrow> ('dbg, 'bp, 'pm) MlirOptMainConfig \<Rightarrow> ('dbg, 'bp, 'pm) MlirOptMainConfig" where
  "showDialects show c = c\<lparr>showDialectsFlag := show\<rparr>"

definition shouldShowDialects :: "('dbg, 'bp, 'pm) MlirOptMainConfig \<Rightarrow> bool" where
  "shouldShowDialects c = showDialectsFlag c"

text \<open>
  The marker of \<^verbatim>\<open>splitInputFile\<close> and of the setter \<^verbatim>\<open>outputSplitMarker\<close> defaults to
  \<^verbatim>\<open>kDefaultSplitMarker\<close>, a constant of another header: the caller passes the marker here.
  The setter and the getter \<^verbatim>\<open>outputSplitMarker\<close> are overloads; the setter has the suffix
  \<^verbatim>\<open>_set\<close>.
\<close>

definition splitInputFile ::
  "string \<Rightarrow> ('dbg, 'bp, 'pm) MlirOptMainConfig \<Rightarrow> ('dbg, 'bp, 'pm) MlirOptMainConfig" where
  "splitInputFile splitMarker c = c\<lparr>splitInputFileFlag := splitMarker\<rparr>"

definition inputSplitMarker :: "('dbg, 'bp, 'pm) MlirOptMainConfig \<Rightarrow> string" where
  "inputSplitMarker c = splitInputFileFlag c"

definition outputSplitMarker_set ::
  "string \<Rightarrow> ('dbg, 'bp, 'pm) MlirOptMainConfig \<Rightarrow> ('dbg, 'bp, 'pm) MlirOptMainConfig" where
  "outputSplitMarker_set splitMarker c = c\<lparr>outputSplitMarkerFlag := splitMarker\<rparr>"

definition outputSplitMarker :: "('dbg, 'bp, 'pm) MlirOptMainConfig \<Rightarrow> string" where
  "outputSplitMarker c = outputSplitMarkerFlag c"

definition useExplicitModule ::
  "bool \<Rightarrow> ('dbg, 'bp, 'pm) MlirOptMainConfig \<Rightarrow> ('dbg, 'bp, 'pm) MlirOptMainConfig" where
  "useExplicitModule useExplicit c = c\<lparr>useExplicitModuleFlag := useExplicit\<rparr>"

definition shouldUseExplicitModule :: "('dbg, 'bp, 'pm) MlirOptMainConfig \<Rightarrow> bool" where
  "shouldUseExplicitModule c = useExplicitModuleFlag c"

definition verifyDiagnostics ::
  "Level \<Rightarrow> ('dbg, 'bp, 'pm) MlirOptMainConfig \<Rightarrow> ('dbg, 'bp, 'pm) MlirOptMainConfig" where
  "verifyDiagnostics verify c = c\<lparr>verifyDiagnosticsFlag := verify\<rparr>"

definition shouldVerifyDiagnostics :: "('dbg, 'bp, 'pm) MlirOptMainConfig \<Rightarrow> bool" where
  "shouldVerifyDiagnostics c = (verifyDiagnosticsFlag c \<noteq> Level_None)"

definition verifyDiagnosticsLevel :: "('dbg, 'bp, 'pm) MlirOptMainConfig \<Rightarrow> Level" where
  "verifyDiagnosticsLevel c = verifyDiagnosticsFlag c"

definition verifyPasses ::
  "bool \<Rightarrow> ('dbg, 'bp, 'pm) MlirOptMainConfig \<Rightarrow> ('dbg, 'bp, 'pm) MlirOptMainConfig" where
  "verifyPasses verify c = c\<lparr>verifyPassesFlag := verify\<rparr>"

definition shouldVerifyPasses :: "('dbg, 'bp, 'pm) MlirOptMainConfig \<Rightarrow> bool" where
  "shouldVerifyPasses c = verifyPassesFlag c"

definition verifyOnParsing ::
  "bool \<Rightarrow> ('dbg, 'bp, 'pm) MlirOptMainConfig \<Rightarrow> ('dbg, 'bp, 'pm) MlirOptMainConfig" where
  "verifyOnParsing verify c = c\<lparr>disableVerifierOnParsingFlag := \<not> verify\<rparr>"

definition shouldVerifyOnParsing :: "('dbg, 'bp, 'pm) MlirOptMainConfig \<Rightarrow> bool" where
  "shouldVerifyOnParsing c = (\<not> disableVerifierOnParsingFlag c)"

definition verifyRoundtrip ::
  "bool \<Rightarrow> ('dbg, 'bp, 'pm) MlirOptMainConfig \<Rightarrow> ('dbg, 'bp, 'pm) MlirOptMainConfig" where
  "verifyRoundtrip verify c = c\<lparr>verifyRoundtripFlag := verify\<rparr>"

definition shouldVerifyRoundtrip :: "('dbg, 'bp, 'pm) MlirOptMainConfig \<Rightarrow> bool" where
  "shouldVerifyRoundtrip c = verifyRoundtripFlag c"

definition getReproducerFilename :: "('dbg, 'bp, 'pm) MlirOptMainConfig \<Rightarrow> string" where
  "getReproducerFilename c = generateReproducerFileFlag c"

section \<open>The exit code of the tool\<close>

text \<open>
  \<^verbatim>\<open>EXIT_SUCCESS\<close> and \<^verbatim>\<open>EXIT_FAILURE\<close> are the macros of \<^verbatim>\<open><cstdlib>\<close>, 0 and 1 in the
  C libraries the tool is built with. The result is a C \<^verbatim>\<open>int\<close>; only these two values
  occur.
\<close>

definition EXIT_SUCCESS :: int where
  "EXIT_SUCCESS = 0"

definition EXIT_FAILURE :: int where
  "EXIT_FAILURE = 1"

definition asMainReturnCode :: "LogicalResult \<Rightarrow> int" where
  "asMainReturnCode r = (if succeeded r then EXIT_SUCCESS else EXIT_FAILURE)"

section \<open>The two sources of the pass pipeline\<close>

text \<open>
  Modelled from the spec: \<^verbatim>\<open>setPassPipelineParser\<close> is declared in the header and defined
  in a file that is not among the sources. The spec says that the pipeline comes either
  from a registered callback or from a pre-parsed textual description, that the two sources
  are mutually exclusive and that setting one clears the other. The class has a single slot
  for the source, \<^verbatim>\<open>passPipelineCallback\<close>: installing the parser stores in that slot the
  function that adds the parsed pipeline to the pass manager. \<^verbatim>\<open>PassPipelineCLParser\<close> is
  opaque for the header: a type variable, with the function \<open>addToPipeline\<close> that runs it.
\<close>

definition setPassPipelineParser ::
  "('parser \<Rightarrow> 'pm PassPipelineFn) \<Rightarrow> 'parser \<Rightarrow> ('dbg, 'bp, 'pm) MlirOptMainConfig
    \<Rightarrow> ('dbg, 'bp, 'pm) MlirOptMainConfig" where
  "setPassPipelineParser addToPipeline parser c =
    c\<lparr>passPipelineCallback := Some (addToPipeline parser)\<rparr>"

text \<open>
  A call that installs a pipeline source: \<^verbatim>\<open>setPassPipelineSetupFn\<close> with its callback
  (an empty \<^verbatim>\<open>std::function\<close> is \<open>None\<close>) or \<^verbatim>\<open>setPassPipelineParser\<close> with its parser.
  \<open>installAll\<close> makes the calls of a list one after the other, \<open>sourceFn\<close> is the function
  a call asks to be run.
\<close>

datatype ('pm, 'parser) PipelineInstall =
  SetupFn "'pm PassPipelineFn option"
| Parser 'parser

fun install ::
  "('parser \<Rightarrow> 'pm PassPipelineFn) \<Rightarrow> ('dbg, 'bp, 'pm) MlirOptMainConfig
    \<Rightarrow> ('pm, 'parser) PipelineInstall \<Rightarrow> ('dbg, 'bp, 'pm) MlirOptMainConfig" where
  "install addToPipeline c (SetupFn callback) = setPassPipelineSetupFn callback c"
| "install addToPipeline c (Parser parser) = setPassPipelineParser addToPipeline parser c"

definition installAll ::
  "('parser \<Rightarrow> 'pm PassPipelineFn) \<Rightarrow> ('dbg, 'bp, 'pm) MlirOptMainConfig
    \<Rightarrow> ('pm, 'parser) PipelineInstall list \<Rightarrow> ('dbg, 'bp, 'pm) MlirOptMainConfig" where
  "installAll addToPipeline c calls = foldl (install addToPipeline) c calls"

fun sourceFn ::
  "('parser \<Rightarrow> 'pm PassPipelineFn) \<Rightarrow> ('pm, 'parser) PipelineInstall
    \<Rightarrow> 'pm PassPipelineFn option" where
  "sourceFn addToPipeline (SetupFn callback) = callback"
| "sourceFn addToPipeline (Parser parser) = Some (addToPipeline parser)"

section \<open>Setter calls and what the getters read\<close>

text \<open>
  To state that a setter changes one option only, the setters defined in the header are the
  constructors of a type of calls, the options are named, and \<open>getter\<close> gives what the
  getters of an option return. The option verify-diagnostics has two getters; the pipeline
  source is read through \<^verbatim>\<open>setupPassPipeline\<close>.
\<close>

datatype ('dbg, 'pm) SetterCall =
  Call_allowUnregisteredDialects bool
| Call_setDebugConfig 'dbg
| Call_dumpPassPipeline bool
| Call_emitBytecode bool
| Call_setIrdlFile string
| Call_setEmitBytecodeVersion "64 word"
| Call_setPassPipelineSetupFn "'pm PassPipelineFn option"
| Call_listPasses bool
| Call_runReproducer bool
| Call_showDialects bool
| Call_splitInputFile string
| Call_outputSplitMarker string
| Call_useExplicitModule bool
| Call_verifyDiagnostics Level
| Call_verifyPasses bool
| Call_verifyOnParsing bool
| Call_verifyRoundtrip bool

fun call ::
  "('dbg, 'pm) SetterCall \<Rightarrow> ('dbg, 'bp, 'pm) MlirOptMainConfig
    \<Rightarrow> ('dbg, 'bp, 'pm) MlirOptMainConfig" where
  "call (Call_allowUnregisteredDialects v) c = allowUnregisteredDialects v c"
| "call (Call_setDebugConfig v) c = setDebugConfig v c"
| "call (Call_dumpPassPipeline v) c = dumpPassPipeline v c"
| "call (Call_emitBytecode v) c = emitBytecode v c"
| "call (Call_setIrdlFile v) c = setIrdlFile v c"
| "call (Call_setEmitBytecodeVersion v) c = setEmitBytecodeVersion v c"
| "call (Call_setPassPipelineSetupFn v) c = setPassPipelineSetupFn v c"
| "call (Call_listPasses v) c = listPasses v c"
| "call (Call_runReproducer v) c = runReproducer v c"
| "call (Call_showDialects v) c = showDialects v c"
| "call (Call_splitInputFile v) c = splitInputFile v c"
| "call (Call_outputSplitMarker v) c = outputSplitMarker_set v c"
| "call (Call_useExplicitModule v) c = useExplicitModule v c"
| "call (Call_verifyDiagnostics v) c = verifyDiagnostics v c"
| "call (Call_verifyPasses v) c = verifyPasses v c"
| "call (Call_verifyOnParsing v) c = verifyOnParsing v c"
| "call (Call_verifyRoundtrip v) c = verifyRoundtrip v c"

datatype OptionName =
  Opt_allowUnregisteredDialects
| Opt_debugConfig
| Opt_diagnosticVerbosityLevel
| Opt_dumpPassPipeline
| Opt_emitBytecode
| Opt_elideResourceDataFromBytecode
| Opt_showNotes
| Opt_irdlFile
| Opt_emitBytecodeVersion
| Opt_passPipeline
| Opt_listPasses
| Opt_runReproducer
| Opt_showDialects
| Opt_splitInputFile
| Opt_outputSplitMarker
| Opt_useExplicitModule
| Opt_verifyDiagnostics
| Opt_verifyPasses
| Opt_verifyOnParsing
| Opt_verifyRoundtrip
| Opt_reproducerFilename

fun optionOf :: "('dbg, 'pm) SetterCall \<Rightarrow> OptionName" where
  "optionOf (Call_allowUnregisteredDialects v) = Opt_allowUnregisteredDialects"
| "optionOf (Call_setDebugConfig v) = Opt_debugConfig"
| "optionOf (Call_dumpPassPipeline v) = Opt_dumpPassPipeline"
| "optionOf (Call_emitBytecode v) = Opt_emitBytecode"
| "optionOf (Call_setIrdlFile v) = Opt_irdlFile"
| "optionOf (Call_setEmitBytecodeVersion v) = Opt_emitBytecodeVersion"
| "optionOf (Call_setPassPipelineSetupFn v) = Opt_passPipeline"
| "optionOf (Call_listPasses v) = Opt_listPasses"
| "optionOf (Call_runReproducer v) = Opt_runReproducer"
| "optionOf (Call_showDialects v) = Opt_showDialects"
| "optionOf (Call_splitInputFile v) = Opt_splitInputFile"
| "optionOf (Call_outputSplitMarker v) = Opt_outputSplitMarker"
| "optionOf (Call_useExplicitModule v) = Opt_useExplicitModule"
| "optionOf (Call_verifyDiagnostics v) = Opt_verifyDiagnostics"
| "optionOf (Call_verifyPasses v) = Opt_verifyPasses"
| "optionOf (Call_verifyOnParsing v) = Opt_verifyOnParsing"
| "optionOf (Call_verifyRoundtrip v) = Opt_verifyRoundtrip"

datatype ('dbg, 'pm) Reading =
  Read_bool bool
| Read_string string
| Read_debugConfig 'dbg
| Read_verbosity VerbosityLevel
| Read_version "64 word option"
| Read_diagnostics bool Level
| Read_pipeline "'pm PassPipelineFn"

fun getter ::
  "OptionName \<Rightarrow> ('dbg, 'bp, 'pm) MlirOptMainConfig \<Rightarrow> ('dbg, 'pm) Reading" where
  "getter Opt_allowUnregisteredDialects c = Read_bool (shouldAllowUnregisteredDialects c)"
| "getter Opt_debugConfig c = Read_debugConfig (getDebugConfig c)"
| "getter Opt_diagnosticVerbosityLevel c = Read_verbosity (getDiagnosticVerbosityLevel c)"
| "getter Opt_dumpPassPipeline c = Read_bool (shouldDumpPassPipeline c)"
| "getter Opt_emitBytecode c = Read_bool (shouldEmitBytecode c)"
| "getter Opt_elideResourceDataFromBytecode c =
     Read_bool (shouldElideResourceDataFromBytecode c)"
| "getter Opt_showNotes c = Read_bool (shouldShowNotes c)"
| "getter Opt_irdlFile c = Read_string (getIrdlFile c)"
| "getter Opt_emitBytecodeVersion c = Read_version (bytecodeVersionToEmit c)"
| "getter Opt_passPipeline c = Read_pipeline (setupPassPipeline c)"
| "getter Opt_listPasses c = Read_bool (shouldListPasses c)"
| "getter Opt_runReproducer c = Read_bool (shouldRunReproducer c)"
| "getter Opt_showDialects c = Read_bool (shouldShowDialects c)"
| "getter Opt_splitInputFile c = Read_string (inputSplitMarker c)"
| "getter Opt_outputSplitMarker c = Read_string (outputSplitMarker c)"
| "getter Opt_useExplicitModule c = Read_bool (shouldUseExplicitModule c)"
| "getter Opt_verifyDiagnostics c =
     Read_diagnostics (shouldVerifyDiagnostics c) (verifyDiagnosticsLevel c)"
| "getter Opt_verifyPasses c = Read_bool (shouldVerifyPasses c)"
| "getter Opt_verifyOnParsing c = Read_bool (shouldVerifyOnParsing c)"
| "getter Opt_verifyRoundtrip c = Read_bool (shouldVerifyRoundtrip c)"
| "getter Opt_reproducerFilename c = Read_string (getReproducerFilename c)"

section \<open>Defaults of a default-constructed configuration\<close>

text \<open>
  C1: the claim is that a default-constructed configuration shows the notes of a diagnostic.
  The code does the opposite: the member \<^verbatim>\<open>disableDiagnosticNotesFlag\<close> is initialised to
  true, so \<^verbatim>\<open>shouldShowNotes()\<close> returns false on a default-constructed configuration.
\<close>

theorem shouldShowNotes_default_is_false:
  "shouldShowNotes (MlirOptMainConfig_default dbg) = False"
  by (simp add: shouldShowNotes_def MlirOptMainConfig_default_def)

text \<open>
  C2: on a default-constructed configuration the verifier runs after each pass and after
  parsing, and the round-trip check is off.
\<close>

theorem verifier_defaults:
  "shouldVerifyPasses (MlirOptMainConfig_default dbg) = True
   \<and> shouldVerifyOnParsing (MlirOptMainConfig_default dbg) = True
   \<and> shouldVerifyRoundtrip (MlirOptMainConfig_default dbg) = False"
  by (simp add: shouldVerifyPasses_def shouldVerifyOnParsing_def shouldVerifyRoundtrip_def
      MlirOptMainConfig_default_def)

text \<open>
  C3: diagnostic verification is on exactly when the level is not \<^verbatim>\<open>None\<close>, for every
  configuration, so after \<^verbatim>\<open>verifyDiagnostics(lvl)\<close> it is on exactly when \<open>lvl\<close> is not
  \<^verbatim>\<open>None\<close>; a default-constructed configuration has the level \<^verbatim>\<open>None\<close> and diagnostic
  verification off.
\<close>

theorem shouldVerifyDiagnostics_iff_level:
  "shouldVerifyDiagnostics c = (verifyDiagnosticsLevel c \<noteq> Level_None)
   \<and> shouldVerifyDiagnostics (verifyDiagnostics lvl c) = (lvl \<noteq> Level_None)
   \<and> verifyDiagnosticsLevel (MlirOptMainConfig_default dbg) = Level_None
   \<and> shouldVerifyDiagnostics (MlirOptMainConfig_default dbg) = False"
  by (simp add: shouldVerifyDiagnostics_def verifyDiagnosticsLevel_def verifyDiagnostics_def
      MlirOptMainConfig_default_def)

text \<open>
  C6: a default-constructed configuration has an empty input split marker, an empty output
  split marker and no bytecode version.
\<close>

theorem markers_and_version_default:
  "inputSplitMarker (MlirOptMainConfig_default dbg) = []
   \<and> outputSplitMarker (MlirOptMainConfig_default dbg) = []
   \<and> bytecodeVersionToEmit (MlirOptMainConfig_default dbg) = None"
  by (simp add: inputSplitMarker_def outputSplitMarker_def bytecodeVersionToEmit_def
      MlirOptMainConfig_default_def)

text \<open>
  C10: a default-constructed configuration has the verbosity level
  \<^verbatim>\<open>ErrorsWarningsAndRemarks\<close>, and no level of the enum has a greater value.
\<close>

theorem verbosity_default_is_most_verbose:
  "getDiagnosticVerbosityLevel (MlirOptMainConfig_default dbg) = ErrorsWarningsAndRemarks
   \<and> (\<forall>l. VerbosityLevel_value l
        \<le> VerbosityLevel_value (getDiagnosticVerbosityLevel (MlirOptMainConfig_default dbg)))"
proof -
  have bound: "VerbosityLevel_value l \<le> 2" for l
    by (cases l) simp_all
  show ?thesis
    by (simp add: getDiagnosticVerbosityLevel_def MlirOptMainConfig_default_def bound)
qed

section \<open>The exit code\<close>

text \<open>
  C4: \<^verbatim>\<open>asMainReturnCode\<close> returns \<^verbatim>\<open>EXIT_SUCCESS\<close>, which is 0, for a result that
  succeeded, and \<^verbatim>\<open>EXIT_FAILURE\<close>, which is not 0, for a result that failed.
\<close>

theorem asMainReturnCode_exit_code:
  "(succeeded r \<longrightarrow> asMainReturnCode r = EXIT_SUCCESS \<and> asMainReturnCode r = 0)
   \<and> (failed r \<longrightarrow> asMainReturnCode r = EXIT_FAILURE \<and> asMainReturnCode r \<noteq> 0)"
  by (simp add: asMainReturnCode_def succeeded_def failed_def EXIT_SUCCESS_def EXIT_FAILURE_def)

theorem asMainReturnCode_exit_code_witness:
  "succeeded success \<and> asMainReturnCode success = 0
   \<and> failed failure \<and> asMainReturnCode failure \<noteq> 0"
proof -
  have s: "succeeded success"
    by (simp add: succeeded_def success_def)
  have f: "failed failure"
    by (simp add: failed_def failure_def)
  from s f asMainReturnCode_exit_code [of success] asMainReturnCode_exit_code [of failure]
  show ?thesis
    by blast
qed

section \<open>Setters and getters\<close>

text \<open>
  C8: \<^verbatim>\<open>verifyOnParsing(v)\<close> followed by \<^verbatim>\<open>shouldVerifyOnParsing()\<close> gives \<open>v\<close> back, for
  every configuration, although the member stores the negation.
\<close>

theorem verifyOnParsing_roundtrip:
  "shouldVerifyOnParsing (verifyOnParsing v c) = v"
  by (simp add: shouldVerifyOnParsing_def verifyOnParsing_def)

lemmas setter_defs =
  allowUnregisteredDialects_def setDebugConfig_def dumpPassPipeline_def emitBytecode_def
  setIrdlFile_def setEmitBytecodeVersion_def setPassPipelineSetupFn_def listPasses_def
  runReproducer_def showDialects_def splitInputFile_def outputSplitMarker_set_def
  useExplicitModule_def verifyDiagnostics_def verifyPasses_def verifyOnParsing_def
  verifyRoundtrip_def

lemmas getter_defs =
  shouldAllowUnregisteredDialects_def getDebugConfig_def getDiagnosticVerbosityLevel_def
  shouldDumpPassPipeline_def shouldEmitBytecode_def shouldElideResourceDataFromBytecode_def
  shouldShowNotes_def getIrdlFile_def bytecodeVersionToEmit_def setupPassPipeline_def
  shouldListPasses_def shouldRunReproducer_def shouldShowDialects_def inputSplitMarker_def
  outputSplitMarker_def shouldUseExplicitModule_def shouldVerifyDiagnostics_def
  verifyDiagnosticsLevel_def shouldVerifyPasses_def shouldVerifyOnParsing_def
  shouldVerifyRoundtrip_def getReproducerFilename_def

text \<open>
  C7: a setter of the header changes the option it names and nothing else: every getter of
  another option returns after the call what it returned before, and the member without a
  getter, the breakpoint filter, is unchanged too.
\<close>

theorem setter_changes_only_its_option:
  "(n \<noteq> optionOf s \<longrightarrow> getter n (call s c) = getter n c)
   \<and> logActionLocationFilter (call s c) = logActionLocationFilter c"
proof
  show "n \<noteq> optionOf s \<longrightarrow> getter n (call s c) = getter n c"
    by (cases s; cases n; simp add: setter_defs getter_defs fun_eq_iff)
  show "logActionLocationFilter (call s c) = logActionLocationFilter c"
    by (cases s; simp add: setter_defs)
qed

theorem setter_changes_only_its_option_witness:
  "Opt_emitBytecode \<noteq> optionOf (Call_verifyPasses False :: (unit, nat) SetterCall)
   \<and> getter Opt_emitBytecode
        (call (Call_verifyPasses False)
          (MlirOptMainConfig_default () :: (unit, unit, nat) MlirOptMainConfig))
      = Read_bool False
   \<and> getter Opt_verifyPasses
        (call (Call_verifyPasses False)
          (MlirOptMainConfig_default () :: (unit, unit, nat) MlirOptMainConfig))
      = Read_bool False"
proof -
  let ?c = "MlirOptMainConfig_default () :: (unit, unit, nat) MlirOptMainConfig"
  have n: "Opt_emitBytecode \<noteq> optionOf (Call_verifyPasses False :: (unit, nat) SetterCall)"
    by simp
  have before: "getter Opt_emitBytecode ?c = Read_bool False"
    by (simp add: shouldEmitBytecode_def MlirOptMainConfig_default_def)
  have own: "getter Opt_verifyPasses (call (Call_verifyPasses False) ?c) = Read_bool False"
    by (simp add: shouldVerifyPasses_def verifyPasses_def)
  from n before own
    setter_changes_only_its_option [of Opt_emitBytecode "Call_verifyPasses False" ?c]
  show ?thesis
    by simp
qed

section \<open>The pass pipeline\<close>

lemma call_keeps_passPipelineCallback:
  "optionOf s \<noteq> Opt_passPipeline \<Longrightarrow> passPipelineCallback (call s c) = passPipelineCallback c"
  by (cases s; simp add: setter_defs)

lemma fold_call_keeps_passPipelineCallback:
  "\<forall>s \<in> set calls. optionOf s \<noteq> Opt_passPipeline
   \<Longrightarrow> passPipelineCallback (fold call calls c) = passPipelineCallback c"
  by (induction calls arbitrary: c) (simp_all add: call_keeps_passPipelineCallback)

text \<open>
  C9: on a configuration with no callback in its slot \<^verbatim>\<open>setupPassPipeline\<close> returns success
  and the pass manager as it was; such are the default-constructed configuration and every
  configuration obtained from it by setters other than \<^verbatim>\<open>setPassPipelineSetupFn\<close>. On a
  configuration with a callback in its slot, in particular after
  \<^verbatim>\<open>setPassPipelineSetupFn\<close> with a callback, it returns what the callback returns on the
  pass manager.
\<close>

theorem setupPassPipeline_result:
  "(passPipelineCallback c = None \<longrightarrow> setupPassPipeline c pm = (success, pm))
   \<and> ((\<forall>s \<in> set calls. optionOf s \<noteq> Opt_passPipeline) \<longrightarrow>
        setupPassPipeline (fold call calls (MlirOptMainConfig_default dbg)) pm = (success, pm))
   \<and> (passPipelineCallback c = Some callback \<longrightarrow> setupPassPipeline c pm = callback pm)
   \<and> setupPassPipeline (setPassPipelineSetupFn (Some callback) c) pm = callback pm"
proof (intro conjI impI)
  assume "passPipelineCallback c = None"
  then show "setupPassPipeline c pm = (success, pm)"
    by (simp add: setupPassPipeline_def)
next
  assume "\<forall>s \<in> set calls. optionOf s \<noteq> Opt_passPipeline"
  then show "setupPassPipeline (fold call calls (MlirOptMainConfig_default dbg)) pm
      = (success, pm)"
    by (simp add: setupPassPipeline_def fold_call_keeps_passPipelineCallback
        MlirOptMainConfig_default_def)
next
  assume "passPipelineCallback c = Some callback"
  then show "setupPassPipeline c pm = callback pm"
    by (simp add: setupPassPipeline_def)
next
  show "setupPassPipeline (setPassPipelineSetupFn (Some callback) c) pm = callback pm"
    by (simp add: setupPassPipeline_def setPassPipelineSetupFn_def)
qed

theorem setupPassPipeline_result_witness:
  "passPipelineCallback
      (setPassPipelineSetupFn None
        (MlirOptMainConfig_default () :: (unit, unit, nat) MlirOptMainConfig))
     = None
   \<and> setupPassPipeline
      (setPassPipelineSetupFn None
        (MlirOptMainConfig_default () :: (unit, unit, nat) MlirOptMainConfig))
      7 = (success, 7)
   \<and> optionOf (Call_emitBytecode True :: (unit, nat) SetterCall) \<noteq> Opt_passPipeline
   \<and> optionOf (Call_verifyOnParsing False :: (unit, nat) SetterCall) \<noteq> Opt_passPipeline
   \<and> setupPassPipeline
      (fold call [Call_emitBytecode True, Call_verifyOnParsing False]
        (MlirOptMainConfig_default () :: (unit, unit, nat) MlirOptMainConfig))
      7 = (success, 7)
   \<and> passPipelineCallback
      (setPassPipelineSetupFn (Some (\<lambda>pm. (failure, pm + 1)))
        (MlirOptMainConfig_default () :: (unit, unit, nat) MlirOptMainConfig))
     = Some (\<lambda>pm. (failure, pm + 1))
   \<and> setupPassPipeline
      (setPassPipelineSetupFn (Some (\<lambda>pm. (failure, pm + 1)))
        (MlirOptMainConfig_default () :: (unit, unit, nat) MlirOptMainConfig))
      7 = (failure, 8)"
proof -
  let ?d = "MlirOptMainConfig_default () :: (unit, unit, nat) MlirOptMainConfig"
  let ?f = "\<lambda>pm::nat. (failure, pm + 1)"
  let ?calls = "[Call_emitBytecode True, Call_verifyOnParsing False :: (unit, nat) SetterCall]"
  have empty: "passPipelineCallback (setPassPipelineSetupFn None ?d) = None"
    by (simp add: setPassPipelineSetupFn_def)
  have others: "\<forall>s \<in> set ?calls. optionOf s \<noteq> Opt_passPipeline"
    by simp
  have full: "passPipelineCallback (setPassPipelineSetupFn (Some ?f) ?d) = Some ?f"
    by (simp add: setPassPipelineSetupFn_def)
  from empty setupPassPipeline_result [of "setPassPipelineSetupFn None ?d" 7 ?calls "()" ?f]
  have none: "setupPassPipeline (setPassPipelineSetupFn None ?d) 7 = (success, 7)"
    by blast
  from others setupPassPipeline_result [of "setPassPipelineSetupFn None ?d" 7 ?calls "()" ?f]
  have kept: "setupPassPipeline (fold call ?calls ?d) 7 = (success, 7)"
    by blast
  from full setupPassPipeline_result [of "setPassPipelineSetupFn (Some ?f) ?d" 7 ?calls "()" ?f]
  have "setupPassPipeline (setPassPipelineSetupFn (Some ?f) ?d) 7 = ?f 7"
    by blast
  then have some: "setupPassPipeline (setPassPipelineSetupFn (Some ?f) ?d) 7 = (failure, 8)"
    by simp
  have first: "optionOf (Call_emitBytecode True :: (unit, nat) SetterCall) \<noteq> Opt_passPipeline"
    by simp
  have second: "optionOf (Call_verifyOnParsing False :: (unit, nat) SetterCall) \<noteq> Opt_passPipeline"
    by simp
  from empty none first second kept full some show ?thesis
    by (intro conjI)
qed

lemma install_slot:
  "passPipelineCallback (install addToPipeline c x) = sourceFn addToPipeline x"
  by (cases x) (simp_all add: setPassPipelineSetupFn_def setPassPipelineParser_def)

text \<open>
  C5: the configuration has one slot for the pipeline source. After any sequence of calls
  of \<^verbatim>\<open>setPassPipelineSetupFn\<close> and \<^verbatim>\<open>setPassPipelineParser\<close> the slot holds what the last
  call installed, and \<^verbatim>\<open>setupPassPipeline\<close> does what it does when that call is the only
  one made, whatever the configuration before it: a parser installed after a callback runs
  the parser and not the callback, a callback installed after a parser runs the callback
  and not the parser, and an empty callback installed after a parser leaves no source.
\<close>

theorem pipeline_source_last_installed:
  "passPipelineCallback (installAll addToPipeline c (calls @ [x])) = sourceFn addToPipeline x
   \<and> setupPassPipeline (installAll addToPipeline c (calls @ [x])) pm
      = setupPassPipeline (install addToPipeline c' x) pm
   \<and> setupPassPipeline
        (setPassPipelineParser addToPipeline parser (setPassPipelineSetupFn callback c)) pm
      = addToPipeline parser pm
   \<and> setupPassPipeline
        (setPassPipelineSetupFn (Some f) (setPassPipelineParser addToPipeline parser c)) pm
      = f pm
   \<and> setupPassPipeline
        (setPassPipelineSetupFn None (setPassPipelineParser addToPipeline parser c)) pm
      = (success, pm)"
proof -
  have slot: "passPipelineCallback (installAll addToPipeline c (calls @ [x]))
      = sourceFn addToPipeline x"
    by (simp add: installAll_def install_slot)
  have same: "setupPassPipeline (installAll addToPipeline c (calls @ [x])) pm
      = setupPassPipeline (install addToPipeline c' x) pm"
    by (simp add: setupPassPipeline_def slot install_slot)
  show ?thesis
    using slot same
    by (simp add: setupPassPipeline_def setPassPipelineSetupFn_def setPassPipelineParser_def)
qed

end
